theory Spec2Isabelle
  imports Complex_Main "HOL-Library.Word"
begin

section \<open>The diet-plan edge function: data model\<close>

text \<open>
  The program is the request handler of the \<^verbatim>\<open>generate-diet-plan\<close> edge function.
  Its values are JavaScript values, so the model starts with them.

  A JavaScript string is a sequence of 16-bit code units.
\<close>

type_synonym jschar = "16 word"
type_synonym jsstring = "jschar list"

definition js :: "string \<Rightarrow> jsstring" where
  "js s = map (\<lambda>c. of_nat (of_char c)) s"

text \<open>
  A JavaScript number is a double. The model keeps the three kinds of value that decide the
  control flow of the handler: finite numbers, the two infinities and NaN. Finite numbers are
  exact rationals: the rounding error of binary floating point and the sign of zero are not
  modelled (the only zero is the positive one).
\<close>

datatype jsnum = Fin rat | PInf | NInf | NaN

fun js_neg :: "jsnum \<Rightarrow> jsnum" where
  "js_neg (Fin a) = Fin (- a)"
| "js_neg PInf = NInf"
| "js_neg NInf = PInf"
| "js_neg NaN = NaN"

fun js_add :: "jsnum \<Rightarrow> jsnum \<Rightarrow> jsnum" where
  "js_add NaN _ = NaN"
| "js_add _ NaN = NaN"
| "js_add (Fin a) (Fin b) = Fin (a + b)"
| "js_add PInf NInf = NaN"
| "js_add NInf PInf = NaN"
| "js_add PInf _ = PInf"
| "js_add _ PInf = PInf"
| "js_add NInf _ = NInf"
| "js_add _ NInf = NInf"

definition js_sub :: "jsnum \<Rightarrow> jsnum \<Rightarrow> jsnum" where
  "js_sub a b = js_add a (js_neg b)"

fun js_mul :: "jsnum \<Rightarrow> jsnum \<Rightarrow> jsnum" where
  "js_mul NaN _ = NaN"
| "js_mul _ NaN = NaN"
| "js_mul (Fin a) (Fin b) = Fin (a * b)"
| "js_mul (Fin a) PInf = (if a = 0 then NaN else if 0 < a then PInf else NInf)"
| "js_mul (Fin a) NInf = (if a = 0 then NaN else if 0 < a then NInf else PInf)"
| "js_mul PInf (Fin b) = (if b = 0 then NaN else if 0 < b then PInf else NInf)"
| "js_mul NInf (Fin b) = (if b = 0 then NaN else if 0 < b then NInf else PInf)"
| "js_mul PInf PInf = PInf"
| "js_mul NInf NInf = PInf"
| "js_mul PInf NInf = NInf"
| "js_mul NInf PInf = NInf"

text \<open>Division never raises: a zero divisor gives an infinity, or NaN for \<open>0 / 0\<close>.\<close>

fun js_div :: "jsnum \<Rightarrow> jsnum \<Rightarrow> jsnum" where
  "js_div NaN _ = NaN"
| "js_div _ NaN = NaN"
| "js_div (Fin a) (Fin b) =
     (if b = 0 then (if a = 0 then NaN else if 0 < a then PInf else NInf) else Fin (a / b))"
| "js_div (Fin a) PInf = Fin 0"
| "js_div (Fin a) NInf = Fin 0"
| "js_div PInf (Fin b) = (if 0 \<le> b then PInf else NInf)"
| "js_div NInf (Fin b) = (if 0 \<le> b then NInf else PInf)"
| "js_div PInf PInf = NaN"
| "js_div PInf NInf = NaN"
| "js_div NInf PInf = NaN"
| "js_div NInf NInf = NaN"

fun js_gt :: "jsnum \<Rightarrow> jsnum \<Rightarrow> bool" where
  "js_gt NaN _ = False"
| "js_gt _ NaN = False"
| "js_gt (Fin a) (Fin b) = (b < a)"
| "js_gt PInf PInf = False"
| "js_gt PInf _ = True"
| "js_gt NInf _ = False"
| "js_gt (Fin a) NInf = True"
| "js_gt (Fin a) PInf = False"

fun Math_abs :: "jsnum \<Rightarrow> jsnum" where
  "Math_abs (Fin a) = Fin \<bar>a\<bar>"
| "Math_abs PInf = PInf"
| "Math_abs NInf = PInf"
| "Math_abs NaN = NaN"

text \<open>\<^verbatim>\<open>Math.round\<close>: the nearest integer, a tie going to the larger one.\<close>

fun Math_round :: "jsnum \<Rightarrow> jsnum" where
  "Math_round (Fin a) = Fin (of_int \<lfloor>a + 1 / 2\<rfloor>)"
| "Math_round PInf = PInf"
| "Math_round NInf = NInf"
| "Math_round NaN = NaN"

section \<open>The calorie target\<close>

text \<open>
  Lines 34 to 47 of the handler, with the names of its local constants. The arguments are the
  fields of the request body that the computation reads.
\<close>

definition computeTargetCalories ::
  "jsstring \<Rightarrow> jsnum \<Rightarrow> jsnum \<Rightarrow> jsnum \<Rightarrow> jsnum \<Rightarrow> jsnum" where
  "computeTargetCalories goalType currentWeight targetWeight age goalDurationWeeks =
     (let weightDifference = Math_abs (js_sub targetWeight currentWeight);
          totalWeeks = goalDurationWeeks;
          weeklyWeightChange = js_div weightDifference totalWeeks;
          weeklyCalorieAdjustment = js_mul weeklyWeightChange (Fin 3500);
          dailyCalorieAdjustment = js_div weeklyCalorieAdjustment (Fin 7);
          baseBMR = js_add (Fin 1500) (if js_gt age (Fin 30) then Fin (- 100) else Fin 100)
      in if goalType = js ''weight_loss''
         then Math_round (js_sub baseBMR dailyCalorieAdjustment)
         else Math_round (js_add baseBMR dailyCalorieAdjustment))"

subsection \<open>The calorie target as the specification words it\<close>




section \<open>JavaScript values\<close>

text \<open>
  The values that \<^verbatim>\<open>JSON.parse\<close> and object literals produce, and \<^verbatim>\<open>undefined\<close>,
  which reading a missing property gives. An object is the list of its own properties in
  insertion order.
\<close>

datatype jsval =
    JUndefined
  | JNull
  | JBool bool
  | JNum jsnum
  | JStr jsstring
  | JArr "jsval list"
  | JObj "(jsstring \<times> jsval) list"

text \<open>What the handler throws, or what the platform throws into it.\<close>

datatype error =
    MissingApiKey        \<comment> \<open>\<^verbatim>\<open>Error('GEMINI_API_KEY not found in environment variables')\<close>\<close>
  | RequestBodyError     \<comment> \<open>\<^verbatim>\<open>req.json()\<close> rejects, or its result cannot be destructured\<close>
  | FetchFailed          \<comment> \<open>\<^verbatim>\<open>fetch\<close> rejects\<close>
  | GeminiApiError nat jsstring
                         \<comment> \<open>\<^verbatim>\<open>Error(`Gemini API error: ${response.status} ${response.statusText}`)\<close>\<close>
  | ResponseBodyError    \<comment> \<open>\<^verbatim>\<open>response.json()\<close> rejects\<close>
  | InvalidResponse      \<comment> \<open>\<^verbatim>\<open>Error('Invalid response from Gemini API')\<close>\<close>
  | TypeError            \<comment> \<open>a property of \<^verbatim>\<open>undefined\<close> or \<^verbatim>\<open>null\<close> is read, or a non-function is called\<close>
  | NoJsonFound          \<comment> \<open>\<^verbatim>\<open>Error('No JSON found in response')\<close>\<close>
  | SyntaxError          \<comment> \<open>\<^verbatim>\<open>JSON.parse\<close> rejects its argument\<close>

fun truthy :: "jsval \<Rightarrow> bool" where
  "truthy JUndefined = False"
| "truthy JNull = False"
| "truthy (JBool b) = b"
| "truthy (JNum n) = (n \<noteq> Fin 0 \<and> n \<noteq> NaN)"
| "truthy (JStr s) = (s \<noteq> [])"
| "truthy (JArr _) = True"
| "truthy (JObj _) = True"

text \<open>
  \<^verbatim>\<open>v.name\<close> for the property names the handler reads (\<^verbatim>\<open>candidates\<close>, \<^verbatim>\<open>content\<close>,
  \<^verbatim>\<open>parts\<close>, \<^verbatim>\<open>text\<close>): none of them is inherited from a prototype, so only an object's own
  property can be found.
\<close>

fun get_prop :: "jsval \<Rightarrow> jsstring \<Rightarrow> error + jsval" where
  "get_prop JUndefined name = Inl TypeError"
| "get_prop JNull name = Inl TypeError"
| "get_prop (JObj ps) name = Inr (case map_of ps name of Some v \<Rightarrow> v | None \<Rightarrow> JUndefined)"
| "get_prop _ name = Inr JUndefined"

text \<open>\<^verbatim>\<open>v[0]\<close>.\<close>

fun get_index0 :: "jsval \<Rightarrow> error + jsval" where
  "get_index0 JUndefined = Inl TypeError"
| "get_index0 JNull = Inl TypeError"
| "get_index0 (JArr xs) = Inr (case xs of [] \<Rightarrow> JUndefined | x # _ \<Rightarrow> x)"
| "get_index0 (JObj ps) = Inr (case map_of ps (js ''0'') of Some v \<Rightarrow> v | None \<Rightarrow> JUndefined)"
| "get_index0 (JStr s) = Inr (case s of [] \<Rightarrow> JUndefined | c # _ \<Rightarrow> JStr [c])"
| "get_index0 _ = Inr JUndefined"

section \<open>\<^verbatim>\<open>JSON.parse\<close>\<close>

text \<open>
  The platform's parser, for the JSON grammar of ECMA-404: a lexer for the six structural
  characters, strings, numbers and the three literals, and a pushdown automaton over the tokens.
  A number token carries its exact decimal value. The engine's resource limits and the
  enumeration order of integer-like keys are not modelled.
\<close>

datatype token =
    TLBrace | TRBrace | TLBrack | TRBrack | TColon | TComma
  | TString jsstring | TNumber rat | TTrue | TFalse | TNull

definition is_ws :: "jschar \<Rightarrow> bool" where
  "is_ws c = (c = 0x20 \<or> c = 0x09 \<or> c = 0x0A \<or> c = 0x0D)"

definition is_digit :: "jschar \<Rightarrow> bool" where
  "is_digit c = (0x30 \<le> c \<and> c \<le> 0x39)"

definition digit_val :: "jschar \<Rightarrow> nat" where
  "digit_val c = unat c - 48"

definition digits_val :: "jsstring \<Rightarrow> nat" where
  "digits_val ds = foldl (\<lambda>n c. 10 * n + digit_val c) 0 ds"

definition hex_val :: "jschar \<Rightarrow> nat option" where
  "hex_val c =
     (if 0x30 \<le> c \<and> c \<le> 0x39 then Some (unat c - 48)
      else if 0x41 \<le> c \<and> c \<le> 0x46 then Some (unat c - 55)
      else if 0x61 \<le> c \<and> c \<le> 0x66 then Some (unat c - 87)
      else None)"

definition hex4 :: "jschar \<Rightarrow> jschar \<Rightarrow> jschar \<Rightarrow> jschar \<Rightarrow> jschar option" where
  "hex4 a b c d =
     (case (hex_val a, hex_val b, hex_val c, hex_val d) of
        (Some x, Some y, Some z, Some w) \<Rightarrow> Some (of_nat (((x * 16 + y) * 16 + z) * 16 + w))
      | _ \<Rightarrow> None)"

text \<open>The character after a backslash, other than \<open>u\<close>.\<close>

definition escape :: "jschar \<Rightarrow> jschar option" where
  "escape e =
     (if e = 0x22 then Some 0x22
      else if e = 0x5C then Some 0x5C
      else if e = 0x2F then Some 0x2F
      else if e = 0x62 then Some 0x08
      else if e = 0x66 then Some 0x0C
      else if e = 0x6E then Some 0x0A
      else if e = 0x72 then Some 0x0D
      else if e = 0x74 then Some 0x09
      else None)"

definition consS :: "jschar \<Rightarrow> (jsstring \<times> jsstring) option \<Rightarrow> (jsstring \<times> jsstring) option" where
  "consS c r = (case r of None \<Rightarrow> None | Some (s, rest) \<Rightarrow> Some (c # s, rest))"

text \<open>
  The text after an opening quote: the decoded string and what follows the closing quote.
  A control character must be escaped.
\<close>

fun lex_string :: "jsstring \<Rightarrow> (jsstring \<times> jsstring) option" where
  "lex_string [] = None"
| "lex_string (c # cs) =
     (if c = 0x22 then Some ([], cs)
      else if c = 0x5C then
        (case cs of
           [] \<Rightarrow> None
         | e # cs' \<Rightarrow>
             if e = 0x75 then
               (case cs' of
                  h1 # h2 # h3 # h4 # cs'' \<Rightarrow>
                    (case hex4 h1 h2 h3 h4 of
                       None \<Rightarrow> None
                     | Some u \<Rightarrow> consS u (lex_string cs''))
                | _ \<Rightarrow> None)
             else
               (case escape e of
                  None \<Rightarrow> None
                | Some x \<Rightarrow> consS x (lex_string cs')))
      else if c < 0x20 then None
      else consS c (lex_string cs))"

definition lex_sign :: "jsstring \<Rightarrow> bool \<times> jsstring" where
  "lex_sign s = (case s of c # cs \<Rightarrow> if c = 0x2D then (True, cs) else (False, s) | [] \<Rightarrow> (False, s))"

text \<open>The fraction: its digits (none when there is no point) and the rest.\<close>

definition lex_frac :: "jsstring \<Rightarrow> (jsstring \<times> jsstring) option" where
  "lex_frac s =
     (case s of
        c # cs \<Rightarrow>
          if c = 0x2E then
            (if takeWhile is_digit cs = [] then None
             else Some (takeWhile is_digit cs, dropWhile is_digit cs))
          else Some ([], s)
      | [] \<Rightarrow> Some ([], s))"

text \<open>The exponent: its value (0 when there is none) and the rest.\<close>

definition lex_exp :: "jsstring \<Rightarrow> (int \<times> jsstring) option" where
  "lex_exp s =
     (case s of
        c # cs \<Rightarrow>
          if c = 0x65 \<or> c = 0x45 then
            (let (sg, ds) =
                   (case cs of
                      d # cs' \<Rightarrow>
                        if d = 0x2B then (1, cs') else if d = 0x2D then (- 1, cs') else (1, cs)
                    | [] \<Rightarrow> (1, cs))
             in if takeWhile is_digit ds = [] then None
                else Some (sg * int (digits_val (takeWhile is_digit ds)), dropWhile is_digit ds))
          else Some (0, s)
      | [] \<Rightarrow> Some (0, s))"

definition scale10 :: "rat \<Rightarrow> int \<Rightarrow> rat" where
  "scale10 m e = (if 0 \<le> e then m * 10 ^ nat e else m / 10 ^ nat (- e))"

definition lex_number :: "jsstring \<Rightarrow> (rat \<times> jsstring) option" where
  "lex_number s =
     (let (neg, s1) = lex_sign s;
          ip = takeWhile is_digit s1;
          s2 = dropWhile is_digit s1
      in if ip = [] \<or> (1 < length ip \<and> hd ip = 0x30) then None
         else
           (case lex_frac s2 of
              None \<Rightarrow> None
            | Some (fp, s3) \<Rightarrow>
                (case lex_exp s3 of
                   None \<Rightarrow> None
                 | Some (e, s4) \<Rightarrow>
                     (let m = of_nat (digits_val ip) + of_nat (digits_val fp) / 10 ^ length fp;
                          v = scale10 m e
                      in Some (if neg then - v else v, s4)))))"

lemma consS_length:
  assumes "consS c r = Some (s, rest)"
  obtains s' where "r = Some (s', rest)"
  using assms by (auto simp: consS_def split: option.splits)

lemma lex_string_shorter: "lex_string cs = Some (s, rest) \<Longrightarrow> length rest < length cs"
proof (induction cs arbitrary: s rule: lex_string.induct)
  case 1
  then show ?case by simp
next
  case (2 c cs)
  show ?case
  proof (cases "c = 0x22")
    case True
    with "2.prems" show ?thesis by simp
  next
    case q: False
    show ?thesis
    proof (cases "c = 0x5C")
      case False
      with q "2.prems" have ctl: "\<not> c < 0x20" and r: "consS c (lex_string cs) = Some (s, rest)"
        by (auto split: if_splits)
      from r obtain s' where "lex_string cs = Some (s', rest)" by (rule consS_length)
      with "2.IH"(3) q False ctl have "length rest < length cs" by blast
      then show ?thesis by simp
    next
      case b: True
      with q "2.prems" obtain e cs' where cs: "cs = e # cs'"
        by (cases cs) auto
      show ?thesis
      proof (cases "e = 0x75")
        case False
        with q b cs "2.prems" obtain x where x: "escape e = Some x"
          and r: "consS x (lex_string cs') = Some (s, rest)"
          by (auto split: option.splits)
        from r obtain s' where "lex_string cs' = Some (s', rest)" by (rule consS_length)
        with "2.IH"(2) q b cs False x have "length rest < length cs'" by blast
        with cs show ?thesis by simp
      next
        case u: True
        with q b cs "2.prems" obtain h1 h2 h3 h4 cs'' v where
          cs': "cs' = h1 # h2 # h3 # h4 # cs''" and v: "hex4 h1 h2 h3 h4 = Some v"
          and r: "consS v (lex_string cs'') = Some (s, rest)"
          by (auto split: list.splits option.splits)
        from r obtain s' where "lex_string cs'' = Some (s', rest)" by (rule consS_length)
        with "2.IH"(1) q b cs u cs' v have "length rest < length cs''" by blast
        with cs cs' show ?thesis by simp
      qed
    qed
  qed
qed

lemma lex_sign_length: "lex_sign s = (neg, s1) \<Longrightarrow> length s1 \<le> length s"
  by (auto simp: lex_sign_def split: list.splits if_splits)

lemma lex_frac_length: "lex_frac s = Some (fp, r) \<Longrightarrow> length r \<le> length s"
  by (auto simp: lex_frac_def length_dropWhile_le le_SucI split: list.splits if_splits)

lemma lex_exp_length: "lex_exp s = Some (e, r) \<Longrightarrow> length r \<le> length s"
proof (cases s)
  case Nil
  assume "lex_exp s = Some (e, r)"
  with Nil show ?thesis by (simp add: lex_exp_def)
next
  case (Cons c cs)
  assume a: "lex_exp s = Some (e, r)"
  show ?thesis
  proof (cases "c = 0x65 \<or> c = 0x45")
    case False
    with a Cons show ?thesis by (auto simp: lex_exp_def)
  next
    case True
    define ds where "ds = (case cs of
        d # cs' \<Rightarrow> if d = 0x2B then cs' else if d = 0x2D then cs' else cs | [] \<Rightarrow> cs)"
    have ds: "length ds \<le> length cs"
      by (auto simp: ds_def split: list.splits)
    from a Cons True have "r = dropWhile is_digit ds"
      by (auto simp: lex_exp_def ds_def split: list.splits if_splits)
    then have "length r \<le> length ds" by (simp add: length_dropWhile_le)
    with ds Cons show ?thesis by simp
  qed
qed

lemma lex_number_shorter: "lex_number s = Some (q, r) \<Longrightarrow> length r < length s"
proof -
  assume a: "lex_number s = Some (q, r)"
  obtain neg s1 where sg: "lex_sign s = (neg, s1)" by (cases "lex_sign s")
  define ip where "ip = takeWhile is_digit s1"
  define s2 where "s2 = dropWhile is_digit s1"
  from a sg have ip: "ip \<noteq> []"
    by (auto simp: lex_number_def ip_def Let_def split: if_splits)
  from a sg ip obtain fp s3 e where fr: "lex_frac s2 = Some (fp, s3)"
    and ex: "lex_exp s3 = Some (e, r)"
    by (auto simp: lex_number_def ip_def s2_def Let_def split: if_splits option.splits)
  have "length s1 = length ip + length s2"
    unfolding ip_def s2_def by (metis length_append takeWhile_dropWhile_id)
  with ip have "length s2 < length s1" by (cases ip) auto
  with lex_sign_length [OF sg] lex_frac_length [OF fr] lex_exp_length [OF ex]
  show ?thesis by simp
qed

function lex :: "jsstring \<Rightarrow> token list option" where
  "lex [] = Some []"
| "lex (c # cs) =
     (if is_ws c then lex cs
      else if c = 0x7B then map_option (Cons TLBrace) (lex cs)
      else if c = 0x7D then map_option (Cons TRBrace) (lex cs)
      else if c = 0x5B then map_option (Cons TLBrack) (lex cs)
      else if c = 0x5D then map_option (Cons TRBrack) (lex cs)
      else if c = 0x3A then map_option (Cons TColon) (lex cs)
      else if c = 0x2C then map_option (Cons TComma) (lex cs)
      else if c = 0x22 then
        (case lex_string cs of
           None \<Rightarrow> None
         | Some (s, rest) \<Rightarrow> map_option (Cons (TString s)) (lex rest))
      else if c = 0x2D \<or> is_digit c then
        (case lex_number (c # cs) of
           None \<Rightarrow> None
         | Some (q, rest) \<Rightarrow> map_option (Cons (TNumber q)) (lex rest))
      else if take 4 (c # cs) = js ''true'' then map_option (Cons TTrue) (lex (drop 3 cs))
      else if take 5 (c # cs) = js ''false'' then map_option (Cons TFalse) (lex (drop 4 cs))
      else if take 4 (c # cs) = js ''null'' then map_option (Cons TNull) (lex (drop 3 cs))
      else None)"
  by pat_completeness auto
termination
proof (relation "measure length", goal_cases)
  case (9 c cs x2 x y)
  then show ?case using lex_string_shorter [of cs x y] by simp
next
  case (10 c cs x2 x y)
  then show ?case using lex_number_shorter [of "c # cs" x y] by simp
qed auto

text \<open>
  The automaton. A frame of the stack is an array or an object under construction; an object
  frame that has read a key and its colon waits for the value.
\<close>

datatype frame =
    FArr "jsval list"
  | FObj "(jsstring \<times> jsval) list"
  | FKey "(jsstring \<times> jsval) list" jsstring

datatype mode =
    WantValue          \<comment> \<open>a value must follow\<close>
  | WantValueOrClose   \<comment> \<open>after \<open>[\<close>: a value or \<open>]\<close>\<close>
  | WantKeyOrClose     \<comment> \<open>after \<open>{\<close>: a key or \<open>}\<close>\<close>
  | WantKey            \<comment> \<open>after a comma in an object\<close>
  | WantColon          \<comment> \<open>after a key\<close>
  | AfterValue         \<comment> \<open>after a member: a comma or the closing bracket\<close>
  | Done jsval         \<comment> \<open>the text's value is complete\<close>

text \<open>A repeated key keeps its first position and takes the last value.\<close>

fun set_prop :: "jsstring \<Rightarrow> jsval \<Rightarrow> (jsstring \<times> jsval) list \<Rightarrow> (jsstring \<times> jsval) list" where
  "set_prop k v [] = [(k, v)]"
| "set_prop k v ((k', v') # ps) = (if k' = k then (k, v) # ps else (k', v') # set_prop k v ps)"

fun push_value :: "jsval \<Rightarrow> frame list \<Rightarrow> (mode \<times> frame list) option" where
  "push_value v [] = Some (Done v, [])"
| "push_value v (FArr xs # st) = Some (AfterValue, FArr (xs @ [v]) # st)"
| "push_value v (FKey ps k # st) = Some (AfterValue, FObj (set_prop k v ps) # st)"
| "push_value v (FObj ps # st) = None"

fun scalar :: "token \<Rightarrow> jsval option" where
  "scalar (TString s) = Some (JStr s)"
| "scalar (TNumber q) = Some (JNum (Fin q))"
| "scalar TTrue = Some (JBool True)"
| "scalar TFalse = Some (JBool False)"
| "scalar TNull = Some JNull"
| "scalar _ = None"

definition start_value :: "token \<Rightarrow> frame list \<Rightarrow> (mode \<times> frame list) option" where
  "start_value t st =
     (if t = TLBrack then Some (WantValueOrClose, FArr [] # st)
      else if t = TLBrace then Some (WantKeyOrClose, FObj [] # st)
      else (case scalar t of None \<Rightarrow> None | Some v \<Rightarrow> push_value v st))"

definition close_array :: "frame list \<Rightarrow> (mode \<times> frame list) option" where
  "close_array st = (case st of FArr xs # st' \<Rightarrow> push_value (JArr xs) st' | _ \<Rightarrow> None)"

definition close_object :: "frame list \<Rightarrow> (mode \<times> frame list) option" where
  "close_object st = (case st of FObj ps # st' \<Rightarrow> push_value (JObj ps) st' | _ \<Rightarrow> None)"

definition read_key :: "token \<Rightarrow> frame list \<Rightarrow> (mode \<times> frame list) option" where
  "read_key t st =
     (case (t, st) of
        (TString k, FObj ps # st') \<Rightarrow> Some (WantColon, FKey ps k # st')
      | _ \<Rightarrow> None)"

fun step :: "mode \<Rightarrow> frame list \<Rightarrow> token \<Rightarrow> (mode \<times> frame list) option" where
  "step WantValue st t = start_value t st"
| "step WantValueOrClose st t = (if t = TRBrack then close_array st else start_value t st)"
| "step WantKeyOrClose st t = (if t = TRBrace then close_object st else read_key t st)"
| "step WantKey st t = read_key t st"
| "step WantColon st t = (if t = TColon then Some (WantValue, st) else None)"
| "step AfterValue st t =
     (if t = TComma then
        (case st of
           FArr xs # st' \<Rightarrow> Some (WantValue, st)
         | FObj ps # st' \<Rightarrow> Some (WantKey, st)
         | _ \<Rightarrow> None)
      else if t = TRBrack then close_array st
      else if t = TRBrace then close_object st
      else None)"
| "step (Done v) st t = None"

fun run :: "mode \<Rightarrow> frame list \<Rightarrow> token list \<Rightarrow> jsval option" where
  "run m st [] = (case m of Done v \<Rightarrow> Some v | _ \<Rightarrow> None)"
| "run m st (t # ts) = (case step m st t of None \<Rightarrow> None | Some (m', st') \<Rightarrow> run m' st' ts)"

text \<open>\<^verbatim>\<open>JSON.parse(text)\<close>: the value, or \<open>None\<close> where it throws a SyntaxError.\<close>

definition JSON_parse :: "jsstring \<Rightarrow> jsval option" where
  "JSON_parse s = (case lex s of None \<Rightarrow> None | Some ts \<Rightarrow> run WantValue [] ts)"

section \<open>The response parser\<close>

text \<open>
  \<^verbatim>\<open>generatedText.match(/\{[\s\S]*\}/)\<close>. The class \<^verbatim>\<open>[\s\S]\<close> matches every code unit.
  The star is greedy: it takes a code unit and goes on wherever the rest can still be matched,
  and only otherwise lets the closing brace match here.
\<close>

fun star_rbrace :: "jsstring \<Rightarrow> jsstring option" where
  "star_rbrace [] = None"
| "star_rbrace (c # cs) =
     (case star_rbrace cs of
        Some m \<Rightarrow> Some (c # m)
      | None \<Rightarrow> if c = 0x7D then Some [c] else None)"

text \<open>A match of the whole pattern that starts at the head of the text.\<close>

definition match_here :: "jsstring \<Rightarrow> jsstring option" where
  "match_here s =
     (case s of
        [] \<Rightarrow> None
      | c # cs \<Rightarrow> if c = 0x7B then map_option (Cons c) (star_rbrace cs) else None)"

text \<open>The search tries each start position from the left; the result is \<^verbatim>\<open>jsonMatch[0]\<close>.\<close>

fun regex_match :: "jsstring \<Rightarrow> jsstring option" where
  "regex_match [] = None"
| "regex_match (c # cs) =
     (case match_here (c # cs) of
        Some m \<Rightarrow> Some m
      | None \<Rightarrow> regex_match cs)"

text \<open>The fallback literal of lines 142 to 166, for the calorie target of the request.\<close>

definition fallbackPlan :: "jsnum \<Rightarrow> jsval" where
  "fallbackPlan targetCalories =
     JObj
       [(js ''dailyCalories'', JNum targetCalories),
        (js ''breakfast'',
         JObj
           [(js ''foods'',
             JArr [JStr (js ''2 slices whole grain toast''), JStr (js ''1 medium banana''),
                   JStr (js ''1 tbsp peanut butter'')]),
            (js ''calories'', JNum (Math_round (js_mul targetCalories (Fin (25 / 100))))),
            (js ''description'', JStr (js ''Balanced breakfast with complex carbs and protein''))]),
        (js ''lunch'',
         JObj
           [(js ''foods'',
             JArr [JStr (js ''Mixed green salad''), JStr (js ''Grilled chicken breast (100g)''),
                   JStr (js ''1 cup quinoa'')]),
            (js ''calories'', JNum (Math_round (js_mul targetCalories (Fin (35 / 100))))),
            (js ''description'', JStr (js ''Protein-rich lunch with fiber and nutrients''))]),
        (js ''dinner'',
         JObj
           [(js ''foods'',
             JArr [JStr (js ''Grilled fish (150g)''), JStr (js ''Steamed vegetables''),
                   JStr (js ''1 cup brown rice'')]),
            (js ''calories'', JNum (Math_round (js_mul targetCalories (Fin (30 / 100))))),
            (js ''description'', JStr (js ''Light dinner with lean protein and vegetables''))]),
        (js ''snacks'',
         JArr
           [JObj
              [(js ''name'', JStr (js ''Greek yogurt with berries'')),
               (js ''foods'',
                JArr [JStr (js ''1 cup Greek yogurt''), JStr (js ''1/2 cup mixed berries'')]),
               (js ''calories'', JNum (Math_round (js_mul targetCalories (Fin (10 / 100)))))]])]"

text \<open>
  The body of the inner \<^verbatim>\<open>try\<close> (lines 132 to 138). A value that is not a string has no
  \<^verbatim>\<open>match\<close> method, so the call throws a TypeError inside the \<^verbatim>\<open>try\<close>.
\<close>

definition try_parse :: "jsval \<Rightarrow> error + jsval" where
  "try_parse generatedText =
     (case generatedText of
        JStr text \<Rightarrow>
          (case regex_match text of
             Some jsonMatch \<Rightarrow>
               (case JSON_parse jsonMatch of
                  Some v \<Rightarrow> Inr v
                | None \<Rightarrow> Inl SyntaxError)
           | None \<Rightarrow> Inl NoJsonFound)
      | _ \<Rightarrow> Inl TypeError)"

text \<open>
  The parse step, lines 129 to 167: the \<^verbatim>\<open>try\<close> with its \<^verbatim>\<open>catch\<close>. The result is the
  value of \<^verbatim>\<open>dietPlan\<close> after the statement, or the error that leaves it.
\<close>

definition parse :: "jsval \<Rightarrow> jsnum \<Rightarrow> error + jsval" where
  "parse generatedText targetCalories =
     (case try_parse generatedText of
        Inr dietPlan \<Rightarrow> Inr dietPlan
      | Inl parseError \<Rightarrow> Inr (fallbackPlan targetCalories))"

section \<open>The handler\<close>

record DietPlanRequest =
  goalType :: jsstring
  currentWeight :: jsnum
  targetWeight :: jsnum
  age :: jsnum
  dietPreference :: jsstring
  goalDurationWeeks :: jsnum

text \<open>
  What the one call of \<^verbatim>\<open>fetch\<close> gives: a rejection, or a response with its status, status
  text and body (\<open>None\<close> for a body that is not JSON). The provider's answer is an input of the
  model, so the text of the prompt is not modelled.
\<close>

datatype fetch_result =
    FetchRejected
  | FetchResponse nat jsstring "jsval option"

definition response_ok :: "nat \<Rightarrow> bool" where
  "response_ok st = (200 \<le> st \<and> st \<le> 299)"

datatype response_body =
    NullBody
  | JsonBody jsval
  | ErrorEnvelope error jsstring
      \<comment> \<open>\<^verbatim>\<open>{ error: error.message, details: ... }\<close>, the error standing for its message\<close>

text \<open>
  A body is the value handed to \<^verbatim>\<open>JSON.stringify\<close>; the serialised text is not modelled.
\<close>

record http_response =
  status :: nat
  headers :: "(string \<times> string) list"
  body :: response_body

definition corsHeaders :: "(string \<times> string) list" where
  "corsHeaders =
     [(''Access-Control-Allow-Origin'', ''*''),
      (''Access-Control-Allow-Headers'', ''authorization, x-client-info, apikey, content-type'')]"

text \<open>
  Lines 122 to 126: the check of the envelope and the read of the generated text. The three
  operands of the check are evaluated from the left, and each read can throw.
\<close>

definition extract_text :: "jsval \<Rightarrow> error + jsval" where
  "extract_text data =
     (case get_prop data (js ''candidates'') of
        Inl e \<Rightarrow> Inl e
      | Inr candidates \<Rightarrow>
          if \<not> truthy candidates then Inl InvalidResponse
          else
            (case get_index0 candidates of
               Inl e \<Rightarrow> Inl e
             | Inr candidate \<Rightarrow>
                 if \<not> truthy candidate then Inl InvalidResponse
                 else
                   (case get_prop candidate (js ''content'') of
                      Inl e \<Rightarrow> Inl e
                    | Inr content \<Rightarrow>
                        if \<not> truthy content then Inl InvalidResponse
                        else
                          (case get_prop content (js ''parts'') of
                             Inl e \<Rightarrow> Inl e
                           | Inr parts \<Rightarrow>
                               (case get_index0 parts of
                                  Inl e \<Rightarrow> Inl e
                                | Inr part \<Rightarrow> get_prop part (js ''text''))))))"

text \<open>Lines 115 to 167: from the provider's response to the diet plan.\<close>

definition after_fetch :: "fetch_result \<Rightarrow> jsnum \<Rightarrow> error + jsval" where
  "after_fetch response targetCalories =
     (case response of
        FetchRejected \<Rightarrow> Inl FetchFailed
      | FetchResponse st statusText json \<Rightarrow>
          if \<not> response_ok st then Inl (GeminiApiError st statusText)
          else
            (case json of
               None \<Rightarrow> Inl ResponseBodyError
             | Some data \<Rightarrow>
                 (case extract_text data of
                    Inl e \<Rightarrow> Inl e
                  | Inr generatedText \<Rightarrow> parse generatedText targetCalories)))"

text \<open>
  The body of the outer \<^verbatim>\<open>try\<close> (lines 25 to 167): the diet plan or the error thrown, and
  the number of calls of \<^verbatim>\<open>fetch\<close> made. The key is what \<^verbatim>\<open>Deno.env.get\<close> returns; the
  request body is \<open>None\<close> where \<^verbatim>\<open>req.json()\<close> rejects.
\<close>

definition generate ::
  "jsstring option \<Rightarrow> DietPlanRequest option \<Rightarrow> fetch_result \<Rightarrow> (error + jsval) \<times> nat" where
  "generate geminiApiKey reqJson response =
     (if geminiApiKey = None \<or> geminiApiKey = Some [] then (Inl MissingApiKey, 0)
      else
        (case reqJson of
           None \<Rightarrow> (Inl RequestBodyError, 0)
         | Some r \<Rightarrow>
             (let targetCalories =
                    computeTargetCalories (goalType r) (currentWeight r) (targetWeight r)
                      (age r) (goalDurationWeeks r)
              in (after_fetch response targetCalories, 1))))"

text \<open>The two responses that carry a body: the plan (line 169) and the error (line 175).\<close>

definition plan_response :: "jsval \<Rightarrow> http_response" where
  "plan_response dietPlan =
     \<lparr>status = 200,
      headers = corsHeaders @ [(''Content-Type'', ''application/json'')],
      body = JsonBody dietPlan\<rparr>"

definition error_response :: "error \<Rightarrow> http_response" where
  "error_response e =
     \<lparr>status = 500,
      headers = corsHeaders @ [(''Content-Type'', ''application/json'')],
      body = ErrorEnvelope e (js ''Failed to generate diet plan'')\<rparr>"

text \<open>The handler passed to \<^verbatim>\<open>serve\<close>: the response, and the number of calls of \<^verbatim>\<open>fetch\<close>.\<close>

definition serve ::
  "jsstring \<Rightarrow> jsstring option \<Rightarrow> DietPlanRequest option \<Rightarrow> fetch_result
   \<Rightarrow> http_response \<times> nat" where
  "serve method geminiApiKey reqJson response =
     (if method = js ''OPTIONS''
      then (\<lparr>status = 200, headers = corsHeaders, body = NullBody\<rparr>, 0)
      else
        (case generate geminiApiKey reqJson response of
           (Inr dietPlan, n) \<Rightarrow> (plan_response dietPlan, n)
         | (Inl e, n) \<Rightarrow> (error_response e, n)))"

section \<open>The specification's data model\<close>

text \<open>
  The handler never checks the shape of a plan; the shape below follows the specification's
  data model, to state what the handler returns against it. A field is read as an own property.
\<close>

definition field :: "jsval \<Rightarrow> string \<Rightarrow> jsval" where
  "field v name =
     (case v of
        JObj ps \<Rightarrow> (case map_of ps (js name) of Some x \<Rightarrow> x | None \<Rightarrow> JUndefined)
      | _ \<Rightarrow> JUndefined)"

definition elements :: "jsval \<Rightarrow> jsval list" where
  "elements v = (case v of JArr xs \<Rightarrow> xs | _ \<Rightarrow> [])"

definition spec_is_string :: "jsval \<Rightarrow> bool" where
  "spec_is_string v = (case v of JStr _ \<Rightarrow> True | _ \<Rightarrow> False)"

definition spec_is_integer :: "jsval \<Rightarrow> bool" where
  "spec_is_integer v = (case v of JNum (Fin q) \<Rightarrow> q = of_int \<lfloor>q\<rfloor> | _ \<Rightarrow> False)"

definition spec_is_nonneg_integer :: "jsval \<Rightarrow> bool" where
  "spec_is_nonneg_integer v =
     (case v of JNum (Fin q) \<Rightarrow> 0 \<le> q \<and> q = of_int \<lfloor>q\<rfloor> | _ \<Rightarrow> False)"

definition spec_is_string_list :: "jsval \<Rightarrow> bool" where
  "spec_is_string_list v = (case v of JArr xs \<Rightarrow> list_all spec_is_string xs | _ \<Rightarrow> False)"

text \<open>MealEntry: \<open>{foods: sequence of strings, calories: non-negative integer, description: string}\<close>.\<close>

definition spec_is_MealEntry :: "jsval \<Rightarrow> bool" where
  "spec_is_MealEntry v =
     (spec_is_string_list (field v ''foods'')
      \<and> spec_is_nonneg_integer (field v ''calories'')
      \<and> spec_is_string (field v ''description''))"

text \<open>SnackEntry: \<open>{name: string, foods: sequence of strings, calories: non-negative integer}\<close>.\<close>

definition spec_is_SnackEntry :: "jsval \<Rightarrow> bool" where
  "spec_is_SnackEntry v =
     (spec_is_string (field v ''name'')
      \<and> spec_is_string_list (field v ''foods'')
      \<and> spec_is_nonneg_integer (field v ''calories''))"

text \<open>
  DietPlan: \<open>{dailyCalories: integer, breakfast, lunch, dinner: MealEntry,
  snacks: sequence of SnackEntry, possibly empty}\<close>.
\<close>

definition spec_is_DietPlan :: "jsval \<Rightarrow> bool" where
  "spec_is_DietPlan v =
     (spec_is_integer (field v ''dailyCalories'')
      \<and> spec_is_MealEntry (field v ''breakfast'')
      \<and> spec_is_MealEntry (field v ''lunch'')
      \<and> spec_is_MealEntry (field v ''dinner'')
      \<and> (case field v ''snacks'' of
            JArr xs \<Rightarrow> list_all spec_is_SnackEntry xs
          | _ \<Rightarrow> False))"

text \<open>
  The extraction as the specification words it: the part of the text from its first \<open>{\<close> to
  its last \<open>}\<close>.
\<close>

definition upto_last_rbrace :: "jsstring \<Rightarrow> jsstring" where
  "upto_last_rbrace s = rev (dropWhile (\<lambda>c. c \<noteq> 0x7D) (rev s))"

definition spec_brace_span :: "jsstring \<Rightarrow> jsstring option" where
  "spec_brace_span s =
     (let t = dropWhile (\<lambda>c. c \<noteq> 0x7B) s
      in if upto_last_rbrace t = [] then None else Some (upto_last_rbrace t))"

text \<open>
  The condition of line 122, \<^verbatim>\<open>!data.candidates || !data.candidates[0] ||
  !data.candidates[0].content\<close>: the response has no candidates, no first candidate, or no
  content in it. A read that throws finds nothing either.
\<close>

definition envelope_missing :: "jsval \<Rightarrow> bool" where
  "envelope_missing data =
     (case get_prop data (js ''candidates'') of
        Inl _ \<Rightarrow> True
      | Inr candidates \<Rightarrow>
          \<not> truthy candidates \<or>
          (case get_index0 candidates of
             Inl _ \<Rightarrow> True
           | Inr candidate \<Rightarrow>
               \<not> truthy candidate \<or>
               (case get_prop candidate (js ''content'') of
                  Inl _ \<Rightarrow> True
                | Inr content \<Rightarrow> \<not> truthy content)))"

subsection \<open>Concrete inputs\<close>

text \<open>A provider response with the expected envelope around a text.\<close>

definition envelope :: "jsval \<Rightarrow> jsval" where
  "envelope text =
     JObj [(js ''candidates'',
            JArr [JObj [(js ''content'',
                         JObj [(js ''parts'', JArr [JObj [(js ''text'', text)]])])]])]"

text \<open>A plan of the expected shape, as JSON text and as the value it denotes.\<close>

definition example_plan_text :: jsstring where
  "example_plan_text =
     js (''{\"dailyCalories\":1800,''
         @ ''\"breakfast\":{\"foods\":[\"oats\"],\"calories\":450,\"description\":\"a\"},''
         @ ''\"lunch\":{\"foods\":[],\"calories\":630,\"description\":\"b\"},''
         @ ''\"dinner\":{\"foods\":[],\"calories\":540,\"description\":\"c\"},''
         @ ''\"snacks\":[{\"name\":\"nuts\",\"foods\":[],\"calories\":180}]}'')"

definition example_plan :: jsval where
  "example_plan =
     JObj
       [(js ''dailyCalories'', JNum (Fin 1800)),
        (js ''breakfast'',
         JObj [(js ''foods'', JArr [JStr (js ''oats'')]), (js ''calories'', JNum (Fin 450)),
               (js ''description'', JStr (js ''a''))]),
        (js ''lunch'',
         JObj [(js ''foods'', JArr []), (js ''calories'', JNum (Fin 630)),
               (js ''description'', JStr (js ''b''))]),
        (js ''dinner'',
         JObj [(js ''foods'', JArr []), (js ''calories'', JNum (Fin 540)),
               (js ''description'', JStr (js ''c''))]),
        (js ''snacks'',
         JArr [JObj [(js ''name'', JStr (js ''nuts'')), (js ''foods'', JArr []),
                     (js ''calories'', JNum (Fin 180))]])]"

definition example_request :: "jsnum \<Rightarrow> DietPlanRequest" where
  "example_request weeks =
     \<lparr>goalType = js ''weight_loss'', currentWeight = Fin 90, targetWeight = Fin 70,
      age = Fin 25, dietPreference = js ''vegan'', goalDurationWeeks = weeks\<rparr>"

section \<open>Auxiliary facts\<close>

lemma js_abs_sub_commute: "Math_abs (js_sub a b) = Math_abs (js_sub b a)"
  by (cases a; cases b) (simp_all add: js_sub_def abs_minus_commute)

lemma upto_last_rbrace_Cons:
  "upto_last_rbrace (c # cs) =
     (if 0x7D \<in> set cs then c # upto_last_rbrace cs else if c = 0x7D then [c] else [])"
proof (cases "0x7D \<in> set cs")
  case True
  then have "\<exists>x\<in>set (rev cs). \<not> x \<noteq> 0x7D" by auto
  then have "dropWhile (\<lambda>c. c \<noteq> 0x7D) (rev cs @ [c]) = dropWhile (\<lambda>c. c \<noteq> 0x7D) (rev cs) @ [c]"
    by (metis (mono_tags, lifting) dropWhile_append1)
  with True show ?thesis by (simp add: upto_last_rbrace_def)
next
  case False
  then have "\<forall>x\<in>set (rev cs). x \<noteq> 0x7D" by auto
  then have "dropWhile (\<lambda>c. c \<noteq> 0x7D) (rev cs @ [c]) = dropWhile (\<lambda>c. c \<noteq> 0x7D) [c]"
    by (metis (mono_tags, lifting) dropWhile_append2)
  with False show ?thesis by (auto simp: upto_last_rbrace_def)
qed

lemma star_rbrace_eq:
  "star_rbrace cs = (if 0x7D \<in> set cs then Some (upto_last_rbrace cs) else None)"
  by (induction cs) (auto simp: upto_last_rbrace_Cons)

lemma upto_last_rbrace_Nil_iff: "upto_last_rbrace s = [] \<longleftrightarrow> 0x7D \<notin> set s"
  by (auto simp: upto_last_rbrace_def dropWhile_eq_Nil_conv)

lemma regex_match_no_rbrace: "0x7D \<notin> set s \<Longrightarrow> regex_match s = None"
  by (induction s) (auto simp: match_here_def star_rbrace_eq)

lemma regex_match_spec: "regex_match s = spec_brace_span s"
proof (induction s)
  case Nil
  show ?case by (simp add: spec_brace_span_def upto_last_rbrace_def)
next
  case (Cons c cs)
  show ?case
  proof (cases "c = 0x7B")
    case False
    with Cons show ?thesis by (simp add: match_here_def spec_brace_span_def)
  next
    case True
    show ?thesis
    proof (cases "0x7D \<in> set cs")
      case r: True
      with True show ?thesis
        by (simp add: match_here_def spec_brace_span_def star_rbrace_eq upto_last_rbrace_Cons)
    next
      case r: False
      with True regex_match_no_rbrace [OF r] show ?thesis
        by (simp add: match_here_def spec_brace_span_def star_rbrace_eq upto_last_rbrace_Cons)
    qed
  qed
qed

lemma spec_brace_span_decomp:
  assumes "spec_brace_span s = Some m"
  shows "\<exists>pre post. s = pre @ m @ post \<and> 0x7B \<notin> set pre \<and> 0x7D \<notin> set post
           \<and> hd m = 0x7B \<and> last m = 0x7D \<and> 2 \<le> length m"
proof -
  let ?L = "\<lambda>c::jschar. c \<noteq> 0x7B" and ?R = "\<lambda>c::jschar. c \<noteq> 0x7D"
  define t where "t = dropWhile ?L s"
  define pre where "pre = takeWhile ?L s"
  define post where "post = rev (takeWhile ?R (rev t))"
  from assms have m: "m = upto_last_rbrace t" and ne: "m \<noteq> []"
    by (auto simp: spec_brace_span_def t_def Let_def split: if_splits)
  have s: "s = pre @ t" by (simp add: pre_def t_def)
  have "rev (takeWhile ?R (rev t) @ dropWhile ?R (rev t)) = t"
    by (simp only: takeWhile_dropWhile_id rev_rev_ident)
  then have t: "t = m @ post"
    by (simp only: rev_append m upto_last_rbrace_def post_def)
  have pre: "0x7B \<notin> set pre" by (auto simp: pre_def dest: set_takeWhileD)
  have post: "0x7D \<notin> set post" by (auto simp: post_def dest: set_takeWhileD)
  from ne t have tne: "t \<noteq> []" by auto
  then have "\<not> ?L (hd t)" unfolding t_def by (rule hd_dropWhile)
  with t ne have hd: "hd m = 0x7B" by (cases m) auto
  from ne have dne: "dropWhile ?R (rev t) \<noteq> []" by (simp add: m upto_last_rbrace_def)
  then have "\<not> ?R (hd (dropWhile ?R (rev t)))" by (rule hd_dropWhile)
  with dne have last: "last m = 0x7D" by (simp add: m upto_last_rbrace_def last_rev)
  have "2 \<le> length m"
  proof (cases m)
    case Nil
    with ne show ?thesis by simp
  next
    case (Cons x xs)
    with hd last have "xs \<noteq> []" by auto
    with Cons show ?thesis by (cases xs) auto
  qed
  with s t pre post hd last show ?thesis by auto
qed

lemmas ev = js_def is_ws_def is_digit_def digit_val_def digits_val_def hex_val_def hex4_def
  escape_def consS_def lex_sign_def lex_frac_def lex_exp_def scale10_def lex_number_def
  start_value_def close_array_def close_object_def read_key_def JSON_parse_def match_here_def

lemma try_parse_sorry: "try_parse (JStr (js ''sorry'')) = Inl NoJsonFound"
  by (simp add: try_parse_def ev)

lemma extract_text_envelope: "extract_text (envelope text) = Inr text"
  by (simp add: extract_text_def envelope_def js_def)

lemma get_prop_error: "get_prop v name = Inl e \<Longrightarrow> e = TypeError"
  by (cases v) auto

lemma get_index0_error: "get_index0 v = Inl e \<Longrightarrow> e = TypeError"
  by (cases v) auto

lemma envelope_missing_error:
  "envelope_missing data \<Longrightarrow>
     extract_text data = Inl InvalidResponse \<or> extract_text data = Inl TypeError"
  by (auto simp: envelope_missing_def extract_text_def split: sum.splits
      dest: get_prop_error get_index0_error)

lemma floor_rat_numeral:
  "\<lfloor>(numeral a :: rat) / numeral b\<rfloor> = numeral a div numeral b"
  "\<lfloor>- ((numeral a :: rat) / numeral b)\<rfloor> = - numeral a div numeral b"
  using floor_divide_of_int_eq [of "numeral a" "numeral b", where ?'a = rat]
    floor_divide_of_int_eq [of "- numeral a" "numeral b", where ?'a = rat]
  by simp_all

lemmas shape = spec_is_DietPlan_def spec_is_MealEntry_def spec_is_SnackEntry_def
  spec_is_string_list_def spec_is_string_def spec_is_integer_def spec_is_nonneg_integer_def
  field_def elements_def


lemma parse_JStr:
  "parse (JStr text) T =
     (case regex_match text of
        None \<Rightarrow> Inr (fallbackPlan T)
      | Some m \<Rightarrow> (case JSON_parse m of None \<Rightarrow> Inr (fallbackPlan T) | Some v \<Rightarrow> Inr v))"
  by (simp add: parse_def try_parse_def split: option.splits)





lemma example_plan_parses: "JSON_parse example_plan_text = Some example_plan"
  by (simp add: ev example_plan_text_def example_plan_def)

lemma example_plan_shape: "spec_is_DietPlan example_plan"
  by (simp add: example_plan_def shape js_def)

section \<open>Properties of the calorie target\<close>



text \<open>
  C7. The two worked examples of the specification:
  \<open>computeTargetCalories(weight_loss, 80, 70, 30, 10) = 1100\<close> (age 30 is not greater than 30,
  so the base is 1600) and \<open>computeTargetCalories(weight_gain, 60, 70, 35, 20) = 1650\<close>.
\<close>

theorem computeTargetCalories_examples:
  "computeTargetCalories (js ''weight_loss'') (Fin 80) (Fin 70) (Fin 30) (Fin 10) = Fin 1100
   \<and> computeTargetCalories (js ''weight_gain'') (Fin 60) (Fin 70) (Fin 35) (Fin 20) = Fin 1650"
  by (simp add: computeTargetCalories_def js_sub_def js_def floor_rat_numeral)

text \<open>
  C9. The calorie target is symmetric in the two weights: swapping the current and the target
  weight gives the same result, for every goal type, age and duration, since only the absolute
  difference is used.
\<close>

theorem computeTargetCalories_symmetric:
  "computeTargetCalories g c t a d = computeTargetCalories g t c a d"
  by (simp add: computeTargetCalories_def js_abs_sub_commute [of t c])



section \<open>Properties of the parse step\<close>





text \<open>
  C4 as stated fails: the text \<open>{}\<close> is a span that parses as JSON and is not a DietPlan, and
  the parse step returns the empty object, not the fallback plan.
\<close>

theorem unvalidated_span_counterexample:
  "regex_match (js ''{}'') = Some (js ''{}'')
   \<and> JSON_parse (js ''{}'') = Some (JObj [])
   \<and> \<not> spec_is_DietPlan (JObj [])
   \<and> parse (JStr (js ''{}'')) (Fin 2000) = Inr (JObj [])
   \<and> JObj [] \<noteq> fallbackPlan (Fin 2000)"
  by (simp add: parse_JStr ev shape fallbackPlan_def)

text \<open>
  C4, amended. For every text that has no brace-delimited span, or whose span is not
  syntactically valid JSON, the parse step returns the fallback plan; a span that is valid JSON
  is returned as parsed, with no validation of its shape.
\<close>

theorem parse_without_validation:
  "(regex_match text = None \<or> (\<exists>m. regex_match text = Some m \<and> JSON_parse m = None)
      \<longrightarrow> parse (JStr text) T = Inr (fallbackPlan T))
   \<and> (\<forall>m v. regex_match text = Some m \<and> JSON_parse m = Some v
      \<longrightarrow> parse (JStr text) T = Inr v)"
  by (auto simp: parse_JStr)

text \<open>Witness for C4: a text without braces, and a JSON object that is not a DietPlan.\<close>

theorem parse_without_validation_witness:
  "regex_match (js ''no plan'') = None
   \<and> parse (JStr (js ''no plan'')) (Fin 2000) = Inr (fallbackPlan (Fin 2000))
   \<and> regex_match (js ''{\"dailyCalories\":true}'') = Some (js ''{\"dailyCalories\":true}'')
   \<and> JSON_parse (js ''{\"dailyCalories\":true}'') = Some (JObj [(js ''dailyCalories'', JBool True)])
   \<and> parse (JStr (js ''{\"dailyCalories\":true}'')) (Fin 2000)
      = Inr (JObj [(js ''dailyCalories'', JBool True)])"
proof -
  have a: "regex_match (js ''no plan'') = None" by (simp add: ev)
  have b: "regex_match (js ''{\"dailyCalories\":true}'') = Some (js ''{\"dailyCalories\":true}'')"
    by (simp add: ev)
  have c: "JSON_parse (js ''{\"dailyCalories\":true}'')
           = Some (JObj [(js ''dailyCalories'', JBool True)])"
    by (simp add: ev)
  from a b c parse_without_validation [of "js ''no plan''" "Fin 2000"]
    parse_without_validation [of "js ''{\"dailyCalories\":true}''" "Fin 2000"]
  show ?thesis by simp
qed

text \<open>
  C5 as stated fails: a text that contains a valid DietPlan object followed by prose with a
  closing brace. The span runs to the last brace, is not JSON, and the fallback plan is returned.
\<close>

theorem embedded_plan_counterexample:
  "JSON_parse example_plan_text = Some example_plan
   \<and> spec_is_DietPlan example_plan
   \<and> parse (JStr (example_plan_text @ js '' Enjoy :-}'')) (Fin 2000)
      = Inr (fallbackPlan (Fin 2000))
   \<and> fallbackPlan (Fin 2000) \<noteq> example_plan"
proof -
  have "regex_match (example_plan_text @ js '' Enjoy :-}'')
        = Some (example_plan_text @ js '' Enjoy :-}'')"
    by (simp add: regex_match_spec spec_brace_span_def upto_last_rbrace_def
        example_plan_text_def js_def)
  moreover have "JSON_parse (example_plan_text @ js '' Enjoy :-}'') = None"
    by (simp add: ev example_plan_text_def)
  ultimately have "parse (JStr (example_plan_text @ js '' Enjoy :-}'')) (Fin 2000)
      = Inr (fallbackPlan (Fin 2000))"
    by (simp add: parse_JStr)
  moreover have "fallbackPlan (Fin 2000) \<noteq> example_plan"
    by (simp add: fallbackPlan_def example_plan_def)
  ultimately show ?thesis
    using example_plan_parses example_plan_shape by simp
qed

text \<open>
  C5, amended. The extraction selects exactly the part of the text from its first \<open>{\<close> to
  its last \<open>}\<close> (greedy), and for every text whose span, so extracted, is syntactically valid
  JSON, the parse step returns exactly the value of that span.
\<close>

theorem extraction_and_parse:
  "regex_match text = spec_brace_span text
   \<and> (regex_match text = None \<longleftrightarrow> 0x7D \<notin> set (dropWhile (\<lambda>c. c \<noteq> 0x7B) text))
   \<and> (\<forall>m. regex_match text = Some m \<longrightarrow>
        (\<exists>pre post. text = pre @ m @ post \<and> 0x7B \<notin> set pre \<and> 0x7D \<notin> set post
           \<and> hd m = 0x7B \<and> last m = 0x7D \<and> 2 \<le> length m))
   \<and> (\<forall>m v. regex_match text = Some m \<and> JSON_parse m = Some v
        \<longrightarrow> parse (JStr text) T = Inr v)"
proof -
  have a: "regex_match text = spec_brace_span text"
    by (rule regex_match_spec)
  have b: "regex_match text = None \<longleftrightarrow> 0x7D \<notin> set (dropWhile (\<lambda>c. c \<noteq> 0x7B) text)"
    by (simp add: regex_match_spec spec_brace_span_def upto_last_rbrace_Nil_iff Let_def)
  have c: "\<forall>m. regex_match text = Some m \<longrightarrow>
        (\<exists>pre post. text = pre @ m @ post \<and> 0x7B \<notin> set pre \<and> 0x7D \<notin> set post
           \<and> hd m = 0x7B \<and> last m = 0x7D \<and> 2 \<le> length m)"
    using spec_brace_span_decomp [of "text"] by (simp add: regex_match_spec)
  have d: "\<forall>m v. regex_match text = Some m \<and> JSON_parse m = Some v
        \<longrightarrow> parse (JStr text) T = Inr v"
    by (simp add: parse_JStr)
  from a b c d show ?thesis by blast
qed

text \<open>Witness for C5: a DietPlan object between two pieces of prose without braces.\<close>

theorem extraction_and_parse_witness:
  "spec_brace_span (js ''Here: '' @ example_plan_text @ js '' Enjoy'') = Some example_plan_text
   \<and> JSON_parse example_plan_text = Some example_plan
   \<and> regex_match (js ''Here: '' @ example_plan_text @ js '' Enjoy'') = Some example_plan_text
   \<and> parse (JStr (js ''Here: '' @ example_plan_text @ js '' Enjoy'')) (Fin 2000)
      = Inr example_plan"
proof -
  have "spec_brace_span (js ''Here: '' @ example_plan_text @ js '' Enjoy'')
        = Some example_plan_text"
    by (simp add: spec_brace_span_def upto_last_rbrace_def example_plan_text_def js_def)
  with example_plan_parses
    extraction_and_parse [of "js ''Here: '' @ example_plan_text @ js '' Enjoy''" "Fin 2000"]
  show ?thesis by simp
qed

section \<open>Properties of the handler\<close>

text \<open>
  C6. For a request other than the preflight: without a provider key the handler fails with the
  configuration error before any call of \<^verbatim>\<open>fetch\<close>; with a key, a response of non-success
  status fails with the provider error, and a response of success status whose body lacks the
  candidates/content envelope fails too (with the invalid-response error, or a TypeError where
  the body is \<^verbatim>\<open>null\<close>). In all three cases the response has status 500 and the error
  envelope as its body, and no plan.
\<close>

theorem generate_failures:
  assumes "method \<noteq> js ''OPTIONS''"
  shows
    "(key = None \<or> key = Some [] \<longrightarrow>
        generate key rq resp = (Inl MissingApiKey, 0)
        \<and> serve method key rq resp = (error_response MissingApiKey, 0))
     \<and> (k \<noteq> [] \<and> \<not> response_ok st \<longrightarrow>
        generate (Some k) (Some r) (FetchResponse st txt b) = (Inl (GeminiApiError st txt), 1)
        \<and> serve method (Some k) (Some r) (FetchResponse st txt b)
          = (error_response (GeminiApiError st txt), 1))
     \<and> (k \<noteq> [] \<and> response_ok st \<and> envelope_missing data \<longrightarrow>
        (\<exists>e. (e = InvalidResponse \<or> e = TypeError)
           \<and> generate (Some k) (Some r) (FetchResponse st txt (Some data)) = (Inl e, 1)
           \<and> serve method (Some k) (Some r) (FetchResponse st txt (Some data))
             = (error_response e, 1)))
     \<and> status (error_response e') = 500
     \<and> body (error_response e') = ErrorEnvelope e' (js ''Failed to generate diet plan'')"
proof -
  have a: "key = None \<or> key = Some [] \<longrightarrow>
        generate key rq resp = (Inl MissingApiKey, 0)
        \<and> serve method key rq resp = (error_response MissingApiKey, 0)"
    using assms by (auto simp: generate_def serve_def)
  have b: "k \<noteq> [] \<and> \<not> response_ok st \<longrightarrow>
        generate (Some k) (Some r) (FetchResponse st txt b) = (Inl (GeminiApiError st txt), 1)
        \<and> serve method (Some k) (Some r) (FetchResponse st txt b)
          = (error_response (GeminiApiError st txt), 1)"
    using assms by (simp add: generate_def serve_def after_fetch_def)
  have c: "k \<noteq> [] \<and> response_ok st \<and> envelope_missing data \<longrightarrow>
        (\<exists>e. (e = InvalidResponse \<or> e = TypeError)
           \<and> generate (Some k) (Some r) (FetchResponse st txt (Some data)) = (Inl e, 1)
           \<and> serve method (Some k) (Some r) (FetchResponse st txt (Some data))
             = (error_response e, 1))"
  proof (intro impI, elim conjE)
    assume k: "k \<noteq> []" and ok: "response_ok st" and m: "envelope_missing data"
    from envelope_missing_error [OF m] obtain e
      where e: "e = InvalidResponse \<or> e = TypeError" and x: "extract_text data = Inl e"
      by blast
    from k ok x assms
    have "generate (Some k) (Some r) (FetchResponse st txt (Some data)) = (Inl e, 1)"
      and "serve method (Some k) (Some r) (FetchResponse st txt (Some data))
             = (error_response e, 1)"
      by (simp_all add: generate_def serve_def after_fetch_def)
    with e show "\<exists>e. (e = InvalidResponse \<or> e = TypeError)
           \<and> generate (Some k) (Some r) (FetchResponse st txt (Some data)) = (Inl e, 1)
           \<and> serve method (Some k) (Some r) (FetchResponse st txt (Some data))
             = (error_response e, 1)"
      by blast
  qed
  have d: "status (error_response e') = 500
     \<and> body (error_response e') = ErrorEnvelope e' (js ''Failed to generate diet plan'')"
    by (simp add: error_response_def)
  from a b c d show ?thesis by blast
qed

text \<open>Witness for C6: no key; status 503; status 200 with an empty list of candidates.\<close>

theorem generate_failures_witness:
  "js ''POST'' \<noteq> js ''OPTIONS''
   \<and> serve (js ''POST'') None (Some (example_request (Fin 4))) FetchRejected
      = (error_response MissingApiKey, 0)
   \<and> \<not> response_ok 503
   \<and> serve (js ''POST'') (Some (js ''key'')) (Some (example_request (Fin 4)))
        (FetchResponse 503 (js ''Service Unavailable'') None)
      = (error_response (GeminiApiError 503 (js ''Service Unavailable'')), 1)
   \<and> response_ok 200 \<and> envelope_missing (JObj [(js ''candidates'', JArr [])])
   \<and> serve (js ''POST'') (Some (js ''key'')) (Some (example_request (Fin 4)))
        (FetchResponse 200 (js ''OK'') (Some (JObj [(js ''candidates'', JArr [])])))
      = (error_response InvalidResponse, 1)"
proof -
  have m: "js ''POST'' \<noteq> js ''OPTIONS''" and k: "js ''key'' \<noteq> []"
    by (simp_all add: js_def)
  have ok: "\<not> response_ok 503" "response_ok 200"
    by (simp_all add: response_ok_def)
  have em: "envelope_missing (JObj [(js ''candidates'', JArr [])])"
    by (simp add: envelope_missing_def)
  have x: "extract_text (JObj [(js ''candidates'', JArr [])]) = Inl InvalidResponse"
    by (simp add: extract_text_def)
  have a: "serve (js ''POST'') None (Some (example_request (Fin 4))) FetchRejected
      = (error_response MissingApiKey, 0)"
    using generate_failures [OF m, of None] by simp
  have b: "serve (js ''POST'') (Some (js ''key'')) (Some (example_request (Fin 4)))
        (FetchResponse 503 (js ''Service Unavailable'') None)
      = (error_response (GeminiApiError 503 (js ''Service Unavailable'')), 1)"
    using generate_failures [OF m, of _ _ _ "js ''key''" 503] k ok by simp
  obtain e where "generate (Some (js ''key'')) (Some (example_request (Fin 4)))
        (FetchResponse 200 (js ''OK'') (Some (JObj [(js ''candidates'', JArr [])]))) = (Inl e, 1)"
     and s: "serve (js ''POST'') (Some (js ''key'')) (Some (example_request (Fin 4)))
        (FetchResponse 200 (js ''OK'') (Some (JObj [(js ''candidates'', JArr [])])))
      = (error_response e, 1)"
    using generate_failures [OF m, of _ _ _ "js ''key''" 200 _ _ _ "JObj [(js ''candidates'', JArr [])]"]
      k ok em by blast
  then have "e = InvalidResponse"
    using k ok x by (simp add: generate_def after_fetch_def)
  with s m ok em a b show ?thesis by simp
qed

text \<open>
  C10. Some goal parameters that meet every declared precondition (positive weights, a positive
  integer age, durationWeeks at least 1) give a negative calorie target: losing 20 kg, from 90 to
  70, in 4 weeks at age 25 gives -900. The fallback plan built from that target, which the
  handler returns when the provider's text holds no JSON, has negative calories in every meal and
  in its snack, so none of them is a MealEntry or SnackEntry of the specification's data model.
\<close>

theorem negative_target_example:
  "computeTargetCalories (js ''weight_loss'') (Fin 90) (Fin 70) (Fin 25) (Fin 4) = Fin (- 900)
   \<and> generate (Some (js ''key'')) (Some (example_request (Fin 4)))
        (FetchResponse 200 (js ''OK'') (Some (envelope (JStr (js ''sorry'')))))
      = (Inr (fallbackPlan (Fin (- 900))), 1)
   \<and> field (field (fallbackPlan (Fin (- 900))) ''breakfast'') ''calories'' = JNum (Fin (- 225))
   \<and> field (field (fallbackPlan (Fin (- 900))) ''lunch'') ''calories'' = JNum (Fin (- 315))
   \<and> field (field (fallbackPlan (Fin (- 900))) ''dinner'') ''calories'' = JNum (Fin (- 270))
   \<and> map (\<lambda>s. field s ''calories'') (elements (field (fallbackPlan (Fin (- 900))) ''snacks''))
      = [JNum (Fin (- 90))]
   \<and> \<not> spec_is_MealEntry (field (fallbackPlan (Fin (- 900))) ''breakfast'')
   \<and> \<not> spec_is_MealEntry (field (fallbackPlan (Fin (- 900))) ''lunch'')
   \<and> \<not> spec_is_MealEntry (field (fallbackPlan (Fin (- 900))) ''dinner'')
   \<and> \<not> list_ex spec_is_SnackEntry (elements (field (fallbackPlan (Fin (- 900))) ''snacks''))"
proof -
  have t: "computeTargetCalories (js ''weight_loss'') (Fin 90) (Fin 70) (Fin 25) (Fin 4)
           = Fin (- 900)"
    by (simp add: computeTargetCalories_def js_sub_def floor_rat_numeral)
  have g: "generate (Some (js ''key'')) (Some (example_request (Fin 4)))
        (FetchResponse 200 (js ''OK'') (Some (envelope (JStr (js ''sorry'')))))
      = (Inr (fallbackPlan (Fin (- 900))), 1)"
    using t by (simp add: generate_def example_request_def after_fetch_def response_ok_def
        extract_text_envelope parse_def try_parse_sorry, simp add: js_def)
  have f: "field (field (fallbackPlan (Fin (- 900))) ''breakfast'') ''calories'' = JNum (Fin (- 225))"
     "field (field (fallbackPlan (Fin (- 900))) ''lunch'') ''calories'' = JNum (Fin (- 315))"
     "field (field (fallbackPlan (Fin (- 900))) ''dinner'') ''calories'' = JNum (Fin (- 270))"
     "map (\<lambda>s. field s ''calories'') (elements (field (fallbackPlan (Fin (- 900))) ''snacks''))
      = [JNum (Fin (- 90))]"
    by (simp_all add: fallbackPlan_def field_def elements_def js_def floor_rat_numeral)
  have n: "\<not> spec_is_MealEntry (field (fallbackPlan (Fin (- 900))) ''breakfast'')"
    "\<not> spec_is_MealEntry (field (fallbackPlan (Fin (- 900))) ''lunch'')"
    "\<not> spec_is_MealEntry (field (fallbackPlan (Fin (- 900))) ''dinner'')"
    "\<not> list_ex spec_is_SnackEntry (elements (field (fallbackPlan (Fin (- 900))) ''snacks''))"
    by (simp_all add: fallbackPlan_def shape js_def floor_rat_numeral)
  from t g f n show ?thesis by blast
qed

end
